theory Spec2Isabelle
  imports Complex_Main
begin

section \<open>Floating-point values of a pandas Series\<close>

text \<open>
  The scanner (\<^verbatim>\<open>main.py\<close>) computes its indicators on pandas Series of \<^verbatim>\<open>float64\<close>.
  A cell is a finite number, one of the two infinities, or NaN, which pandas also uses
  for a missing ("absent") cell. Finite arithmetic is modelled exactly on the reals:
  rounding, overflow and the sign of zero are not modelled. Division never raises; a
  zero divisor yields an infinity or NaN as numpy does.
\<close>

datatype fl = Fin real | PInf | NInf | NaN


fun fl_neg :: "fl \<Rightarrow> fl" where
  "fl_neg (Fin a) = Fin (- a)"
| "fl_neg PInf = NInf"
| "fl_neg NInf = PInf"
| "fl_neg NaN = NaN"

fun fl_add :: "fl \<Rightarrow> fl \<Rightarrow> fl" where
  "fl_add (Fin a) (Fin b) = Fin (a + b)"
| "fl_add NaN y = NaN"
| "fl_add x NaN = NaN"
| "fl_add PInf NInf = NaN"
| "fl_add NInf PInf = NaN"
| "fl_add PInf y = PInf"
| "fl_add x PInf = PInf"
| "fl_add NInf y = NInf"
| "fl_add x NInf = NInf"

definition fl_sub :: "fl \<Rightarrow> fl \<Rightarrow> fl" where
  "fl_sub x y = fl_add x (fl_neg y)"

fun fl_abs :: "fl \<Rightarrow> fl" where
  "fl_abs (Fin a) = Fin \<bar>a\<bar>"
| "fl_abs PInf = PInf"
| "fl_abs NInf = PInf"
| "fl_abs NaN = NaN"

text \<open>The sign of an operand, for the products and quotients that involve an infinity.\<close>

fun fl_sign :: "fl \<Rightarrow> int" where
  "fl_sign (Fin a) = (if a < 0 then - 1 else if a = 0 then 0 else 1)"
| "fl_sign PInf = 1"
| "fl_sign NInf = - 1"
| "fl_sign NaN = 0"

definition inf_of_sign :: "int \<Rightarrow> fl" where
  "inf_of_sign s = (if s = 0 then NaN else if 0 < s then PInf else NInf)"

fun fl_mul :: "fl \<Rightarrow> fl \<Rightarrow> fl" where
  "fl_mul (Fin a) (Fin b) = Fin (a * b)"
| "fl_mul NaN y = NaN"
| "fl_mul x NaN = NaN"
| "fl_mul x y = inf_of_sign (fl_sign x * fl_sign y)"

fun fl_div :: "fl \<Rightarrow> fl \<Rightarrow> fl" where
  "fl_div (Fin a) (Fin b) = (if b = 0 then inf_of_sign (fl_sign (Fin a)) else Fin (a / b))"
| "fl_div NaN y = NaN"
| "fl_div x NaN = NaN"
| "fl_div (Fin a) y = Fin 0"
| "fl_div x (Fin b) = inf_of_sign (fl_sign x * (if b < 0 then - 1 else 1))"
| "fl_div x y = NaN"

text \<open>Comparisons: every comparison with NaN is false.\<close>

fun fl_lt :: "fl \<Rightarrow> fl \<Rightarrow> bool" where
  "fl_lt (Fin a) (Fin b) = (a < b)"
| "fl_lt NaN y = False"
| "fl_lt x NaN = False"
| "fl_lt x NInf = False"
| "fl_lt PInf y = False"
| "fl_lt x y = True"

definition fl_gt :: "fl \<Rightarrow> fl \<Rightarrow> bool" where
  "fl_gt x y = fl_lt y x"

definition fl_ge :: "fl \<Rightarrow> fl \<Rightarrow> bool" where
  "fl_ge x y = (x \<noteq> NaN \<and> y \<noteq> NaN \<and> \<not> fl_lt x y)"

section \<open>Series operations\<close>

text \<open>
  A Series is the list of its cells in index order. All Series of one frame share the
  index, so the binary operators of pandas act cell by cell.
\<close>

type_synonym series = "fl list"

definition s_add :: "series \<Rightarrow> series \<Rightarrow> series" where
  "s_add xs ys = map2 fl_add xs ys"

definition s_sub :: "series \<Rightarrow> series \<Rightarrow> series" where
  "s_sub xs ys = map2 fl_sub xs ys"

definition s_div :: "series \<Rightarrow> series \<Rightarrow> series" where
  "s_div xs ys = map2 fl_div xs ys"

definition s_scale :: "fl \<Rightarrow> series \<Rightarrow> series" where
  "s_scale k xs = map (fl_mul k) xs"

definition s_abs :: "series \<Rightarrow> series" where
  "s_abs xs = map fl_abs xs"

definition s_neg :: "series \<Rightarrow> series" where
  "s_neg xs = map fl_neg xs"

text \<open>\<^verbatim>\<open>Series.shift()\<close> moves every cell one index later and leaves NaN at index 0.\<close>

definition shift :: "series \<Rightarrow> series" where
  "shift xs = (if xs = [] then [] else NaN # butlast xs)"

text \<open>\<^verbatim>\<open>Series.diff()\<close> is the Series minus its shift.\<close>

definition diff :: "series \<Rightarrow> series" where
  "diff xs = s_sub xs (shift xs)"

text \<open>\<^verbatim>\<open>Series.fillna(v)\<close> replaces the NaN cells.\<close>

definition fillna :: "fl \<Rightarrow> series \<Rightarrow> series" where
  "fillna v xs = map (\<lambda>x. if x = NaN then v else x) xs"

text \<open>
  \<^verbatim>\<open>DataFrame.max(axis=1)\<close> skips the NaN cells of a row (\<^verbatim>\<open>skipna=True\<close> is the
  default) and is NaN only for a row with no other cell.
\<close>

definition fl_max :: "fl \<Rightarrow> fl \<Rightarrow> fl" where
  "fl_max x y = (if fl_lt x y then y else x)"

definition row_max :: "fl list \<Rightarrow> fl" where
  "row_max row = (case filter (\<lambda>x. x \<noteq> NaN) row of [] \<Rightarrow> NaN | y # ys \<Rightarrow> foldl fl_max y ys)"

subsection \<open>Rolling windows\<close>

text \<open>
  \<^verbatim>\<open>s.rolling(p)\<close> looks, at index \<open>i\<close>, at the cells \<open>max 0 (i - p + 1) .. i\<close>. pandas
  replaces infinities by NaN before aggregating, counts the remaining observations and
  yields NaN unless there are at least \<^verbatim>\<open>min_periods\<close> of them, which defaults to the
  window size \<open>p\<close>.

  Which cells of the result are NaN is modelled as pandas decides it, by counting. The
  value of a cell that is not NaN is an idealisation: it is computed here from the cells
  of its own window, exactly, while pandas keeps float64 running sums that it updates as
  the window moves, so that rounding and an overflow in earlier cells reach later
  windows. The general theorems below therefore use only which cells are NaN and how
  NaN and a zero divisor propagate, never the value of an aggregate; values are computed
  only for the concrete frames of small whole numbers.
\<close>

definition window :: "nat \<Rightarrow> series \<Rightarrow> nat \<Rightarrow> fl list" where
  "window p xs i = drop (Suc i - p) (take (Suc i) xs)"

fun finite_obs :: "fl list \<Rightarrow> real list" where
  "finite_obs [] = []"
| "finite_obs (Fin r # xs) = r # finite_obs xs"
| "finite_obs (x # xs) = finite_obs xs"

definition rolling :: "nat \<Rightarrow> (real list \<Rightarrow> fl) \<Rightarrow> series \<Rightarrow> series" where
  "rolling p agg xs =
     map (\<lambda>i. let obs = finite_obs (window p xs i)
              in if p \<le> length obs then agg obs else NaN) [0..<length xs]"

definition agg_sum :: "real list \<Rightarrow> fl" where
  "agg_sum obs = Fin (sum_list obs)"

definition agg_mean :: "real list \<Rightarrow> fl" where
  "agg_mean obs = (if obs = [] then NaN else Fin (sum_list obs / real (length obs)))"

text \<open>\<^verbatim>\<open>rolling(p).std()\<close> is the sample standard deviation (\<^verbatim>\<open>ddof=1\<close>).\<close>

definition agg_std :: "real list \<Rightarrow> fl" where
  "agg_std obs =
     (if length obs \<le> 1 then NaN
      else let m = sum_list obs / real (length obs)
           in Fin (sqrt (sum_list (map (\<lambda>x. (x - m)\<^sup>2) obs) / real (length obs - 1))))"

section \<open>Market data\<close>

text \<open>
  One row of the frame that \<^verbatim>\<open>fetch_klines\<close> builds, after \<^verbatim>\<open>pd.to_numeric(...,
  errors="coerce")\<close>: a cell that does not parse is NaN.
\<close>

record candle =
  open_time :: int
  open_price :: fl
  high :: fl
  low :: fl
  close :: fl
  volume :: fl

type_synonym frame = "candle list"

section \<open>Indicators\<close>

definition BOLLINGER_PERIOD :: nat where
  "BOLLINGER_PERIOD = 8"

definition BOLLINGER_STD :: fl where
  "BOLLINGER_STD = Fin 2"

definition ADX_PERIOD :: nat where
  "ADX_PERIOD = 8"

definition sma :: "series \<Rightarrow> nat \<Rightarrow> series" where
  "sma s p = rolling p agg_mean s"

definition true_range :: "frame \<Rightarrow> series" where
  "true_range df =
     (let h = map high df; l = map low df; pc = shift (map close df)
      in map (\<lambda>(a, b, c). row_max [a, b, c])
           (zip (s_sub h l) (zip (s_abs (s_sub h pc)) (s_abs (s_sub l pc)))))"

definition atr :: "frame \<Rightarrow> nat \<Rightarrow> series" where
  "atr df p = rolling p agg_mean (true_range df)"

text \<open>The midline \<^verbatim>\<open>ma\<close> of \<^verbatim>\<open>bollinger_bands\<close>, named so that theorems can refer to it.\<close>

definition bollinger_mid :: "series \<Rightarrow> series" where
  "bollinger_mid s = rolling BOLLINGER_PERIOD agg_mean s"

definition bollinger_bands :: "series \<Rightarrow> series \<times> series \<times> series" where
  "bollinger_bands s =
     (let ma = bollinger_mid s;
          std = rolling BOLLINGER_PERIOD agg_std s;
          upper = s_add ma (s_scale BOLLINGER_STD std);
          lower = s_sub ma (s_scale BOLLINGER_STD std);
          width = s_div (s_sub upper lower) ma
      in (upper, lower, width))"

definition bollinger_width :: "series \<Rightarrow> series" where
  "bollinger_width s = snd (snd (bollinger_bands s))"

text \<open>
  The locals of \<^verbatim>\<open>adx\<close>. \<^verbatim>\<open>up.where(cond, 0)\<close> keeps a cell where the condition
  holds and puts 0 elsewhere, also where a comparison with NaN made the condition false.
\<close>

definition plus_dm :: "frame \<Rightarrow> series" where
  "plus_dm df =
     (let up = diff (map high df); down = s_neg (diff (map low df))
      in map2 (\<lambda>u d. if fl_gt u d \<and> fl_gt u (Fin 0) then u else Fin 0) up down)"

definition minus_dm :: "frame \<Rightarrow> series" where
  "minus_dm df =
     (let up = diff (map high df); down = s_neg (diff (map low df))
      in map2 (\<lambda>u d. if fl_gt d u \<and> fl_gt d (Fin 0) then d else Fin 0) up down)"

definition adx_pdi :: "frame \<Rightarrow> series" where
  "adx_pdi df =
     s_div (s_scale (Fin 100) (rolling ADX_PERIOD agg_sum (plus_dm df)))
           (rolling ADX_PERIOD agg_mean (true_range df))"

definition adx_mdi :: "frame \<Rightarrow> series" where
  "adx_mdi df =
     s_div (s_scale (Fin 100) (rolling ADX_PERIOD agg_sum (minus_dm df)))
           (rolling ADX_PERIOD agg_mean (true_range df))"

definition adx_dx :: "frame \<Rightarrow> series" where
  "adx_dx df =
     s_div (s_scale (Fin 100) (s_abs (s_sub (adx_pdi df) (adx_mdi df))))
           (s_add (adx_pdi df) (adx_mdi df))"

definition adx :: "frame \<Rightarrow> series" where
  "adx df = fillna (Fin 0) (rolling ADX_PERIOD agg_mean (adx_dx df))"

section \<open>Signal logic\<close>

datatype side = LONG | SHORT

text \<open>
  \<^verbatim>\<open>s.iloc[-k]\<close> for a Series known to hold at least \<open>k\<close> cells; \<^verbatim>\<open>triple_sma_cross\<close>
  reads \<^verbatim>\<open>iloc[-1]\<close> and \<^verbatim>\<open>iloc[-2]\<close> only after its length check.
\<close>

definition iloc_back :: "series \<Rightarrow> nat \<Rightarrow> fl" where
  "iloc_back s k = s ! (length s - k)"

text \<open>The chained comparisons \<^verbatim>\<open>a > b > c\<close> and \<^verbatim>\<open>a < b < c\<close> of Python.\<close>

definition ordered_up :: "fl \<Rightarrow> fl \<Rightarrow> fl \<Rightarrow> bool" where
  "ordered_up a b c = (fl_gt a b \<and> fl_gt b c)"

definition ordered_down :: "fl \<Rightarrow> fl \<Rightarrow> fl \<Rightarrow> bool" where
  "ordered_down a b c = (fl_lt a b \<and> fl_lt b c)"

definition triple_sma_cross :: "frame \<Rightarrow> side option" where
  "triple_sma_cross df =
     (let c = map close df; s3 = sma c 3; s8 = sma c 8; s20 = sma c 20
      in if length df < 3 then None
         else if ordered_up (iloc_back s3 1) (iloc_back s8 1) (iloc_back s20 1) \<and>
                 \<not> ordered_up (iloc_back s3 2) (iloc_back s8 2) (iloc_back s20 2)
         then Some LONG
         else if ordered_down (iloc_back s3 1) (iloc_back s8 1) (iloc_back s20 1) \<and>
                 \<not> ordered_down (iloc_back s3 2) (iloc_back s8 2) (iloc_back s20 2)
         then Some SHORT
         else None)"

text \<open>
  The two thresholds that \<^verbatim>\<open>analyze_symbol\<close> reads from the module globals; the
  module sets them from the environment (defaults 0.015 and 15).
\<close>

record config =
  BOLLINGER_WIDTH_MIN_PCT :: fl
  ADX_MIN :: fl

definition default_config :: config where
  "default_config = \<lparr>BOLLINGER_WIDTH_MIN_PCT = Fin (15 / 1000), ADX_MIN = Fin 15\<rparr>"

record signal =
  sig_symbol :: string
  sig_side :: side
  sig_price :: fl
  sig_adx :: fl

text \<open>
  What can go wrong while one symbol is analysed: the request, the status check or the
  decoding of the body raises (\<open>RequestError\<close>), or \<^verbatim>\<open>iloc[-1]\<close> is read from an empty
  Series (\<open>IndexError\<close>).
\<close>

datatype error = RequestError | IndexError

text \<open>
  The market-data provider, as \<^verbatim>\<open>fetch_klines\<close> sees it: for a symbol, either the
  request fails or it yields the decoded rows, oldest first, the last one being the bar
  that is still open.
\<close>

type_synonym provider = "string \<Rightarrow> error + frame"

definition fetch_klines :: "provider \<Rightarrow> string \<Rightarrow> error + frame" where
  "fetch_klines prov symbol =
     (case prov symbol of
        Inl e \<Rightarrow> Inl e
      | Inr rows \<Rightarrow> Inr (butlast rows))"

text \<open>
  The part of \<^verbatim>\<open>analyze_symbol\<close> after the fetch. \<^verbatim>\<open>adx(df).iloc[-1]\<close> is the first
  read of a last cell and raises on an empty frame.
\<close>

definition analyze_frame :: "config \<Rightarrow> string \<Rightarrow> frame \<Rightarrow> error + signal option" where
  "analyze_frame cfg symbol df =
     (let width = bollinger_width (map close df)
      in if df = [] then Inl IndexError
         else
           let adx_v = last (adx df);
               cross = triple_sma_cross df
           in if fl_lt (last width) (BOLLINGER_WIDTH_MIN_PCT cfg) then Inr None
              else if fl_lt adx_v (ADX_MIN cfg) then Inr None
              else (case cross of
                      None \<Rightarrow> Inr None
                    | Some sd \<Rightarrow>
                        Inr (Some \<lparr>sig_symbol = symbol, sig_side = sd,
                                   sig_price = last (map close df), sig_adx = adx_v\<rparr>)))"

definition analyze_symbol :: "config \<Rightarrow> provider \<Rightarrow> string \<Rightarrow> error + signal option" where
  "analyze_symbol cfg prov symbol =
     (case fetch_klines prov symbol of
        Inl e \<Rightarrow> Inl e
      | Inr df \<Rightarrow> analyze_frame cfg symbol df)"

section \<open>The scan loop\<close>

text \<open>
  What the process does to the outside world, in order: the calls of \<^verbatim>\<open>send_telegram\<close>
  (which catches its own failures and never raises) and the log lines of the loop.
\<close>

datatype message = Started | Stopped | Alert signal

datatype event =
    Telegram message
  | LogAlertSent string
  | LogCycleError error
  | LogShutdownRequested
  | LogFinished

definition FIXED_SYMBOLS :: "string list" where
  "FIXED_SYMBOLS =
     [''BCHUSDT'', ''BNBUSDT'', ''CHZUSDT'', ''DOGEUSDT'', ''ENAUSDT'', ''ETHUSDT'',
      ''JASMYUSDT'', ''SOLUSDT'', ''UNIUSDT'', ''XMRUSDT'', ''XRPUSDT'']"

text \<open>
  The \<^verbatim>\<open>for symbol in FIXED_SYMBOLS\<close> loop inside the \<^verbatim>\<open>try\<close> of \<^verbatim>\<open>main\<close>: the events
  of the symbols scanned, and the exception that ended the loop early, if any.
\<close>

fun scan_symbols ::
  "(string \<Rightarrow> error + signal option) \<Rightarrow> string list \<Rightarrow> event list \<times> error option" where
  "scan_symbols an [] = ([], None)"
| "scan_symbols an (s # ss) =
     (case an s of
        Inl e \<Rightarrow> ([], Some e)
      | Inr None \<Rightarrow> scan_symbols an ss
      | Inr (Some sg) \<Rightarrow>
          (case scan_symbols an ss of
             (evs, r) \<Rightarrow> (Telegram (Alert sg) # LogAlertSent (sig_symbol sg) # evs, r)))"

text \<open>One pass of the \<^verbatim>\<open>try ... except Exception\<close> block.\<close>

definition run_cycle :: "(string \<Rightarrow> error + signal option) \<Rightarrow> string list \<Rightarrow> event list" where
  "run_cycle an syms =
     (case scan_symbols an syms of
        (evs, None) \<Rightarrow> evs
      | (evs, Some e) \<Rightarrow> evs @ [LogCycleError e])"

subsection \<open>The loop as a machine driven by its environment\<close>

text \<open>
  \<^verbatim>\<open>main\<close> runs in one thread. Between two of its actions the interpreter may run
  \<^verbatim>\<open>shutdown_handler\<close> for a pending SIGTERM or SIGINT; the handler returns normally, so
  the interrupted action (a sleep, a request) is resumed. The machine therefore takes
  two kinds of input: \<open>Tick prov\<close> lets \<^verbatim>\<open>main\<close> do its next action, with \<open>prov\<close> the
  answers the provider would give at that moment, and \<open>Signal\<close> runs the handler.
\<close>

datatype control =
    AtStart
  | WarmUp
  | LoopTest
  | Scanning "string list"
  | Sleeping
  | Finished

record loop_state =
  pc :: control
  SHUTDOWN :: bool
  trace :: "event list"

datatype input = Tick provider | Signal

definition initial_state :: loop_state where
  "initial_state = \<lparr>pc = AtStart, SHUTDOWN = False, trace = []\<rparr>"

definition shutdown_handler :: "loop_state \<Rightarrow> loop_state" where
  "shutdown_handler st =
     st\<lparr>SHUTDOWN := True, trace := trace st @ [Telegram Stopped, LogShutdownRequested]\<rparr>"

definition emit :: "event list \<Rightarrow> loop_state \<Rightarrow> loop_state" where
  "emit evs st = st\<lparr>trace := trace st @ evs\<rparr>"

definition main_action :: "config \<Rightarrow> provider \<Rightarrow> loop_state \<Rightarrow> loop_state" where
  "main_action cfg prov st =
     (case pc st of
        AtStart \<Rightarrow> emit [Telegram Started] (st\<lparr>pc := WarmUp\<rparr>)
      | WarmUp \<Rightarrow> st\<lparr>pc := LoopTest\<rparr>
      | LoopTest \<Rightarrow>
          if SHUTDOWN st then emit [LogFinished] (st\<lparr>pc := Finished\<rparr>)
          else st\<lparr>pc := Scanning FIXED_SYMBOLS\<rparr>
      | Scanning [] \<Rightarrow> st\<lparr>pc := Sleeping\<rparr>
      | Scanning (s # ss) \<Rightarrow>
          (case analyze_symbol cfg prov s of
             Inl e \<Rightarrow> emit [LogCycleError e] (st\<lparr>pc := Sleeping\<rparr>)
           | Inr None \<Rightarrow> st\<lparr>pc := Scanning ss\<rparr>
           | Inr (Some sg) \<Rightarrow>
               emit [Telegram (Alert sg), LogAlertSent (sig_symbol sg)] (st\<lparr>pc := Scanning ss\<rparr>))
      | Sleeping \<Rightarrow> st\<lparr>pc := LoopTest\<rparr>
      | Finished \<Rightarrow> st)"

fun step :: "config \<Rightarrow> loop_state \<Rightarrow> input \<Rightarrow> loop_state" where
  "step cfg st (Tick prov) = main_action cfg prov st"
| "step cfg st Signal = (if pc st = Finished then st else shutdown_handler st)"

definition run :: "config \<Rightarrow> loop_state \<Rightarrow> input list \<Rightarrow> loop_state" where
  "run cfg st ins = foldl (step cfg) st ins"

section \<open>Module start-up\<close>

text \<open>
  Lines 16 to 27 of \<^verbatim>\<open>main.py\<close>: ten import statements bind ten names in the module's
  namespace, then the statement \<^verbatim>\<open>load_dotenv()\<close> looks that name up, first in the
  module's namespace and then among the builtins, and raises \<^verbatim>\<open>NameError\<close> if it is in
  neither. The imported packages are taken to be installed.
\<close>

datatype py_exception = NameError string | SystemExit nat

definition imported_names :: "string list" where
  "imported_names =
     [''os'', ''sys'', ''time'', ''signal'', ''logging'', ''requests'', ''np'', ''pd'',
      ''datetime'', ''pytz'']"

definition builtin_names :: "string list" where
  "builtin_names =
     [''abs'', ''aiter'', ''all'', ''anext'', ''any'', ''ascii'', ''bin'', ''bool'',
      ''breakpoint'', ''bytearray'', ''bytes'', ''callable'', ''chr'', ''classmethod'',
      ''compile'', ''complex'', ''copyright'', ''credits'', ''delattr'', ''dict'', ''dir'',
      ''divmod'', ''enumerate'', ''eval'', ''exec'', ''exit'', ''filter'', ''float'',
      ''format'', ''frozenset'', ''getattr'', ''globals'', ''hasattr'', ''hash'', ''help'',
      ''hex'', ''id'', ''input'', ''int'', ''isinstance'', ''issubclass'', ''iter'', ''len'',
      ''license'', ''list'', ''locals'', ''map'', ''max'', ''memoryview'', ''min'', ''next'',
      ''object'', ''oct'', ''open'', ''ord'', ''pow'', ''print'', ''property'', ''quit'',
      ''range'', ''repr'', ''reversed'', ''round'', ''set'', ''setattr'', ''slice'',
      ''sorted'', ''staticmethod'', ''str'', ''sum'', ''super'', ''tuple'', ''type'',
      ''vars'', ''zip'']"

definition name_bound :: "string list \<Rightarrow> string \<Rightarrow> bool" where
  "name_bound globals name = (name \<in> set globals \<or> name \<in> set builtin_names)"

text \<open>
  The environment variables the module reads, and the run of the module as a script:
  the name lookup of line 27, then the credential check of lines 74 to 76, then
  \<^verbatim>\<open>main()\<close> under the inputs the process receives.
\<close>

record environment =
  TELEGRAM_TOKEN :: "string option"
  TELEGRAM_CHAT_ID :: "string option"
  thresholds :: config

definition falsy :: "string option \<Rightarrow> bool" where
  "falsy v = (v = None \<or> v = Some [])"

definition run_module :: "environment \<Rightarrow> input list \<Rightarrow> (py_exception + unit) \<times> event list" where
  "run_module env ins =
     (if \<not> name_bound imported_names ''load_dotenv'' then (Inl (NameError ''load_dotenv''), [])
      else if falsy (TELEGRAM_TOKEN env) \<or> falsy (TELEGRAM_CHAT_ID env)
      then (Inl (SystemExit 1), [])
      else (Inr (), trace (run (thresholds env) initial_state ins)))"


definition mk_candle :: "real \<Rightarrow> real \<Rightarrow> real \<Rightarrow> candle" where
  "mk_candle h l c =
     \<lparr>open_time = 0, open_price = Fin c, high = Fin h, low = Fin l, close = Fin c,
      volume = Fin 0\<rparr>"

text \<open>
  The strict orderings of the three moving averages (periods 3, 8 and 20 of the close)
  at one index, as the crossover rule is worded: fast above medium above slow, and the
  mirror image.
\<close>

definition triple_up :: "frame \<Rightarrow> nat \<Rightarrow> bool" where
  "triple_up df i =
     (fl_gt (sma (map close df) 3 ! i) (sma (map close df) 8 ! i) \<and>
      fl_gt (sma (map close df) 8 ! i) (sma (map close df) 20 ! i))"

definition triple_down :: "frame \<Rightarrow> nat \<Rightarrow> bool" where
  "triple_down df i =
     (fl_lt (sma (map close df) 3 ! i) (sma (map close df) 8 ! i) \<and>
      fl_lt (sma (map close df) 8 ! i) (sma (map close df) 20 ! i))"

text \<open>The alerts that one pass sends for the symbols it gets through.\<close>

definition alerts_of :: "(string \<Rightarrow> error + signal option) \<Rightarrow> string list \<Rightarrow> event list" where
  "alerts_of an syms =
     concat (map (\<lambda>t. case an t of
                        Inr (Some sg) \<Rightarrow> [Telegram (Alert sg), LogAlertSent (sig_symbol sg)]
                      | _ \<Rightarrow> []) syms)"

text \<open>Frames used as concrete inputs below.\<close>

definition two_bars :: frame where
  "two_bars = [mk_candle 2 1 1, mk_candle 5 3 4]"

definition trend_bar :: "real \<Rightarrow> candle" where
  "trend_bar c = mk_candle (c + 1) (c - 1) c"

text \<open>
  Twenty-one rows of a rising market, the last one still open, and a provider that
  fails for the symbol AAA and serves these rows for every other symbol.
\<close>

definition rising_rows :: frame where
  "rising_rows =
     map trend_bar [1, 1, 2, 2, 3, 3, 4, 5, 6, 7, 8, 9, 10, 11, 12, 13, 13, 14, 15, 16, 17]"

definition rising_bars :: frame where
  "rising_bars = butlast rising_rows"

definition one_down :: provider where
  "one_down symbol = (if symbol = ''AAA'' then Inl RequestError else Inr rising_rows)"

definition rising_signal :: "string \<Rightarrow> signal" where
  "rising_signal symbol =
     \<lparr>sig_symbol = symbol, sig_side = LONG, sig_price = Fin 16, sig_adx = Fin 100\<rparr>"

text \<open>Thresholds set exactly to the width and the strength of \<open>rising_bars\<close>.\<close>

definition boundary_config :: config where
  "boundary_config = \<lparr>BOLLINGER_WIDTH_MIN_PCT = Fin (8 / 13), ADX_MIN = Fin 100\<rparr>"









text \<open>
  Lines 183 to 193 of \<^verbatim>\<open>analyze_symbol\<close> on their own: the three tests on the latest
  width, the latest ADX and the crossover, and the signal they let through.
\<close>

definition signal_decision ::
  "config \<Rightarrow> string \<Rightarrow> fl \<Rightarrow> fl \<Rightarrow> side option \<Rightarrow> fl \<Rightarrow> error + signal option" where
  "signal_decision cfg symbol width_last adx_v cross price =
     (if fl_lt width_last (BOLLINGER_WIDTH_MIN_PCT cfg) then Inr None
      else if fl_lt adx_v (ADX_MIN cfg) then Inr None
      else (case cross of
              None \<Rightarrow> Inr None
            | Some sd \<Rightarrow>
                Inr (Some \<lparr>sig_symbol = symbol, sig_side = sd, sig_price = price,
                           sig_adx = adx_v\<rparr>)))"

text \<open>A configuration whose width threshold was set to NaN in the environment.\<close>

definition nan_width_config :: config where
  "nan_width_config = \<lparr>BOLLINGER_WIDTH_MIN_PCT = NaN, ADX_MIN = Fin 15\<rparr>"

section \<open>Basic facts about Series and rolling windows\<close>

lemma length_rolling [simp]: "length (rolling p agg xs) = length xs"
  by (simp add: rolling_def)

lemma nth_rolling:
  "i < length xs \<Longrightarrow>
   rolling p agg xs ! i =
     (let obs = finite_obs (window p xs i) in if p \<le> length obs then agg obs else NaN)"
  by (simp add: rolling_def)





lemma length_shift [simp]: "length (shift xs) = length xs"
  by (cases xs rule: rev_cases) (simp_all add: shift_def)

lemma nth_shift:
  "i < length xs \<Longrightarrow> shift xs ! i = (if i = 0 then NaN else xs ! (i - 1))"
  by (cases i) (auto simp: shift_def nth_butlast)

lemma length_true_range [simp]: "length (true_range df) = length df"
  by (simp add: true_range_def s_sub_def s_abs_def Let_def)

lemma nth_true_range:
  assumes "i < length df"
  shows "true_range df ! i =
           row_max [fl_sub (high (df ! i)) (low (df ! i)),
                    fl_abs (fl_sub (high (df ! i)) (shift (map close df) ! i)),
                    fl_abs (fl_sub (low (df ! i)) (shift (map close df) ! i))]"
  using assms by (simp add: true_range_def s_sub_def s_abs_def Let_def)

lemma row_max_three_finite:
  "row_max [Fin a, Fin b, Fin c] = Fin (max a (max b c))"
  by (simp add: row_max_def fl_max_def max_def)

lemma row_max_first_only: "row_max [Fin a, NaN, NaN] = Fin a"
  by (simp add: row_max_def)

section \<open>True range\<close>

text \<open>
  C8, as the code has it. For a bar with finite high and low: at index 0 the true range
  is \<open>high - low\<close> (the two terms that need the prior close are NaN and the row maximum
  skips them); at an index \<open>i \<ge> 1\<close> whose prior close is finite it is the largest of
  \<open>high - low\<close>, \<open>|high - prior close|\<close> and \<open>|low - prior close|\<close>.
\<close>

theorem true_range_values:
  assumes "i < length df" "high (df ! i) = Fin h" "low (df ! i) = Fin l"
  shows "(i = 0 \<longrightarrow> true_range df ! i = Fin (h - l)) \<and>
         (0 < i \<and> close (df ! (i - 1)) = Fin c \<longrightarrow>
            true_range df ! i = Fin (max (h - l) (max \<bar>h - c\<bar> \<bar>l - c\<bar>)))"
proof (intro conjI impI)
  assume "i = 0"
  with assms show "true_range df ! i = Fin (h - l)"
    by (simp add: nth_true_range nth_shift fl_sub_def row_max_first_only)
next
  assume "0 < i \<and> close (df ! (i - 1)) = Fin c"
  with assms show "true_range df ! i = Fin (max (h - l) (max \<bar>h - c\<bar> \<bar>l - c\<bar>))"
    by (simp add: nth_true_range nth_shift fl_sub_def row_max_three_finite)
qed

theorem true_range_values_witness:
  "0 < length two_bars \<and> 1 < length two_bars \<and>
   true_range two_bars ! 0 = Fin 1 \<and> true_range two_bars ! 1 = Fin 4"
proof -
  have "true_range two_bars ! 0 = Fin (2 - 1)"
    using true_range_values [of 0 two_bars 2 1 0] by (simp add: two_bars_def mk_candle_def)
  moreover have "true_range two_bars ! 1 = Fin (max (5 - 3) (max \<bar>5 - 1\<bar> \<bar>3 - 1\<bar>))"
    using true_range_values [of 1 two_bars 5 3 1] by (simp add: two_bars_def mk_candle_def)
  ultimately show ?thesis by (simp add: two_bars_def)
qed

text \<open>
  C8 as worded says that the true range is absent at index 0. The frame of one bar with
  high 2 and low 1 has true range 1 there.
\<close>

theorem true_range_first_bar_counterexample:
  "true_range [mk_candle 2 1 1] ! 0 = Fin 1 \<and> true_range [mk_candle 2 1 1] ! 0 \<noteq> NaN"
  by (simp add: true_range_def mk_candle_def shift_def s_sub_def s_abs_def fl_sub_def row_max_def)

section \<open>Comparisons, and when a rolling cell is defined\<close>

lemma fl_lt_asym: "fl_lt a b \<Longrightarrow> \<not> fl_lt b a"
  by (cases a; cases b) auto

lemma fl_lt_irrefl [simp]: "\<not> fl_lt a a"
  by (cases a) auto

lemma fl_lt_NaN [simp]: "\<not> fl_lt NaN y" "\<not> fl_lt x NaN"
  by (cases y; simp) (cases x; simp)

lemma fl_div_NaN [simp]: "fl_div x NaN = NaN" "fl_div NaN y = NaN"
  by (cases x; simp) (cases y; simp)

lemma fl_add_NaN [simp]: "fl_add x NaN = NaN" "fl_add NaN y = NaN"
  by (cases x; simp) (cases y; simp)

lemma fl_mul_NaN [simp]: "fl_mul x NaN = NaN" "fl_mul NaN y = NaN"
  by (cases x; simp) (cases y; simp)


lemma length_sma [simp]: "length (sma s p) = length s"
  by (simp add: sma_def)




section \<open>Simple moving average\<close>




section \<open>Bollinger width\<close>

lemma length_bollinger_mid [simp]: "length (bollinger_mid s) = length s"
  by (simp add: bollinger_mid_def)

lemma length_bollinger_width [simp]: "length (bollinger_width s) = length s"
  by (simp add: bollinger_width_def bollinger_bands_def Let_def s_div_def s_sub_def s_add_def
      s_scale_def)

lemma nth_bollinger_width:
  assumes "i < length s"
  shows "bollinger_width s ! i =
           (let m = bollinger_mid s ! i;
                d = fl_mul BOLLINGER_STD (rolling BOLLINGER_PERIOD agg_std s ! i)
            in fl_div (fl_sub (fl_add m d) (fl_sub m d)) m)"
  using assms
  by (simp add: bollinger_width_def bollinger_bands_def Let_def s_div_def s_sub_def s_add_def
      s_scale_def)


lemma width_of_finite:
  "fl_div (fl_sub (fl_add (Fin m) (fl_mul BOLLINGER_STD (Fin d)))
                   (fl_sub (Fin m) (fl_mul BOLLINGER_STD (Fin d)))) (Fin m) =
     (if m = 0 then (if d = 0 then NaN else if 0 < d then PInf else NInf) else Fin (4 * d / m))"
  by (simp add: BOLLINGER_STD_def fl_sub_def inf_of_sign_def)

section \<open>Crossover rule\<close>

lemma triple_exclusive: "\<not> (triple_up df i \<and> triple_down df i)"
  using fl_lt_asym by (auto simp: triple_up_def triple_down_def fl_gt_def)

lemma cross_unfold:
  "triple_sma_cross df =
     (if length df < 3 then None
      else if triple_up df (length df - 1) \<and> \<not> triple_up df (length df - 2) then Some LONG
      else if triple_down df (length df - 1) \<and> \<not> triple_down df (length df - 2) then Some SHORT
      else None)"
proof -
  have up: "ordered_up (iloc_back (sma (map close df) 3) k) (iloc_back (sma (map close df) 8) k)
              (iloc_back (sma (map close df) 20) k) = triple_up df (length df - k)" for k
    by (simp add: ordered_up_def triple_up_def iloc_back_def)
  have down: "ordered_down (iloc_back (sma (map close df) 3) k) (iloc_back (sma (map close df) 8) k)
              (iloc_back (sma (map close df) 20) k) = triple_down df (length df - k)" for k
    by (simp add: ordered_down_def triple_down_def iloc_back_def)
  show ?thesis
    by (simp only: triple_sma_cross_def Let_def up down)
qed

lemma last_nth_len: "length xs = n \<Longrightarrow> 0 < n \<Longrightarrow> last xs = xs ! (n - 1)"
  by (cases xs rule: rev_cases) auto

text \<open>
  C5. With fewer than three bars the crossover result is none. With three or more it is
  LONG exactly when fast > medium > slow holds at the latest index and did not hold at
  the index before, SHORT exactly under the mirrored ordering, and none in every other
  case, in particular when the ordering held at both indices.
\<close>

theorem triple_sma_cross_rule:
  "(length df < 3 \<longrightarrow> triple_sma_cross df = None) \<and>
   (3 \<le> length df \<longrightarrow>
      (triple_sma_cross df = Some LONG \<longleftrightarrow>
         triple_up df (length df - 1) \<and> \<not> triple_up df (length df - 2)) \<and>
      (triple_sma_cross df = Some SHORT \<longleftrightarrow>
         triple_down df (length df - 1) \<and> \<not> triple_down df (length df - 2)) \<and>
      (triple_sma_cross df = None \<longleftrightarrow>
         \<not> (triple_up df (length df - 1) \<and> \<not> triple_up df (length df - 2)) \<and>
         \<not> (triple_down df (length df - 1) \<and> \<not> triple_down df (length df - 2))))"
  using triple_exclusive [of df "length df - 1"]
  by (auto simp only: cross_unfold split: if_splits)


section \<open>A rising market, evaluated\<close>

lemma rising_closes:
  "map close rising_bars =
     [Fin 1, Fin 1, Fin 2, Fin 2, Fin 3, Fin 3, Fin 4, Fin 5, Fin 6, Fin 7, Fin 8, Fin 9, Fin 10, Fin 11, Fin 12, Fin 13, Fin 13, Fin 14, Fin 15, Fin 16]"
  by (simp add: rising_bars_def rising_rows_def trend_bar_def mk_candle_def)

lemma rising_width: "last (bollinger_width (map close rising_bars)) = Fin (8 / 13)"
proof -
  let ?s = "[Fin 1, Fin 1, Fin 2, Fin 2, Fin 3, Fin 3, Fin 4, Fin 5, Fin 6, Fin 7, Fin 8, Fin 9, Fin 10, Fin 11, Fin 12, Fin 13, Fin 13, Fin 14, Fin 15, Fin 16]"
  have l: "last (bollinger_width ?s) = bollinger_width ?s ! 19"
    by (simp add: last_nth_len [where n = 20])
  have w: "window 8 ?s 19 = [Fin 10, Fin 11, Fin 12, Fin 13, Fin 13, Fin 14, Fin 15, Fin 16]"
    by (simp add: window_def)
  have m: "bollinger_mid ?s ! 19 = Fin 13"
    by (simp add: bollinger_mid_def BOLLINGER_PERIOD_def nth_rolling w agg_mean_def)
  have d: "rolling BOLLINGER_PERIOD agg_std ?s ! 19 = Fin 2"
    by (simp add: BOLLINGER_PERIOD_def nth_rolling w agg_std_def power2_eq_square)
  have "bollinger_width ?s ! 19 = Fin (8 / 13)"
    by (simp add: nth_bollinger_width m d width_of_finite)
  with l show ?thesis by (simp only: rising_closes)
qed

lemma rising_adx: "last (adx rising_bars) = Fin 100"
  by code_simp

lemma rising_cross: "triple_sma_cross rising_bars = Some LONG"
  by code_simp

lemma rising_price: "last (map close rising_bars) = Fin 16"
  by code_simp

lemma rising_nonempty: "rising_bars \<noteq> []"
  by code_simp

lemma rising_length: "length rising_bars = 20"
  by code_simp

lemma rising_frame_signal:
  "analyze_frame default_config symbol rising_bars = Inr (Some (rising_signal symbol))"
  using rising_nonempty
  by (simp add: analyze_frame_def rising_width rising_adx rising_cross rising_price
      default_config_def rising_signal_def)

lemma rising_frame_signal_boundary:
  "analyze_frame boundary_config symbol rising_bars = Inr (Some (rising_signal symbol))"
  using rising_nonempty
  by (simp add: analyze_frame_def rising_width rising_adx rising_cross rising_price
      boundary_config_def rising_signal_def)

lemma one_down_fetch: "symbol \<noteq> ''AAA'' \<Longrightarrow> fetch_klines one_down symbol = Inr rising_bars"
  by (simp add: fetch_klines_def one_down_def rising_bars_def)

lemma one_down_fails: "analyze_symbol cfg one_down ''AAA'' = Inl RequestError"
  by (simp add: analyze_symbol_def fetch_klines_def one_down_def)

lemma one_down_signal:
  "analyze_symbol default_config one_down ''BBB'' = Inr (Some (rising_signal ''BBB''))"
  by (simp add: analyze_symbol_def one_down_fetch rising_frame_signal)

lemma one_down_signal_boundary:
  "analyze_symbol boundary_config one_down ''BBB'' = Inr (Some (rising_signal ''BBB''))"
  by (simp add: analyze_symbol_def one_down_fetch rising_frame_signal_boundary)

theorem triple_sma_cross_rule_witness:
  "3 \<le> length rising_bars \<and> triple_sma_cross rising_bars = Some LONG \<and>
   triple_up rising_bars 19 \<and> \<not> triple_up rising_bars 18 \<and>
   length two_bars < 3 \<and> triple_sma_cross two_bars = None"
proof -
  have "triple_up rising_bars 19 \<and> \<not> triple_up rising_bars 18"
    using triple_sma_cross_rule [of rising_bars] rising_cross rising_length by simp
  moreover have "length two_bars < 3" by (simp add: two_bars_def)
  moreover from this have "triple_sma_cross two_bars = None"
    using triple_sma_cross_rule [of two_bars] by blast
  ultimately show ?thesis using rising_cross rising_length by simp
qed

section \<open>Fetching\<close>

text \<open>
  C9. Whatever rows the provider returns, \<^verbatim>\<open>fetch_klines\<close> returns all of them but the
  last, and \<^verbatim>\<open>analyze_symbol\<close> computes its indicators on exactly that shortened frame.
\<close>

theorem fetch_klines_drops_open_bar:
  assumes "prov symbol = Inr rows"
  shows "fetch_klines prov symbol = Inr (take (length rows - 1) rows) \<and>
         analyze_symbol cfg prov symbol = analyze_frame cfg symbol (take (length rows - 1) rows)"
  using assms by (simp add: fetch_klines_def analyze_symbol_def butlast_conv_take)

theorem fetch_klines_drops_open_bar_witness:
  "one_down ''BBB'' = Inr rising_rows \<and> length rising_rows = 21 \<and>
   fetch_klines one_down ''BBB'' = Inr (take 20 rising_rows)"
proof -
  have p: "one_down ''BBB'' = Inr rising_rows" by (simp add: one_down_def)
  have l: "length rising_rows = 21" by (simp add: rising_rows_def)
  from fetch_klines_drops_open_bar [of one_down "''BBB''" rising_rows default_config] l p
  show ?thesis by simp
qed

section \<open>Signal emission\<close>

lemma fillna_never_nan: "i < length xs \<Longrightarrow> fillna (Fin 0) xs ! i \<noteq> NaN"
  by (simp add: fillna_def)

lemma length_adx [simp]: "length (adx df) = length df"
  by (simp add: adx_def fillna_def adx_dx_def s_div_def s_scale_def s_abs_def s_sub_def s_add_def
      adx_pdi_def adx_mdi_def plus_dm_def minus_dm_def Let_def diff_def s_neg_def)

lemma adx_last_not_nan: "df \<noteq> [] \<Longrightarrow> last (adx df) \<noteq> NaN"
proof -
  assume ne: "df \<noteq> []"
  have "length (adx df) = length df" by simp
  then have "adx df \<noteq> []" using ne by (metis length_0_conv)
  then have "last (adx df) \<in> set (adx df)" by simp
  then show ?thesis by (auto simp: adx_def fillna_def)
qed

lemma analyze_frame_decision:
  "analyze_frame cfg symbol df =
     (if df = [] then Inl IndexError
      else signal_decision cfg symbol (last (bollinger_width (map close df))) (last (adx df))
             (triple_sma_cross df) (last (map close df)))"
  by (simp add: analyze_frame_def signal_decision_def Let_def)

text \<open>
  C4 as worded says that a signal is returned only if the latest width is at least the
  threshold. The code returns early when \<^verbatim>\<open>width < threshold\<close>, which is false for a NaN
  on either side: with a NaN width, an ADX of 100 and a LONG crossover the three tests
  let the signal through, and so does the rising market under a width threshold that is
  NaN, although \<open>width \<ge> threshold\<close> is false in both cases.
\<close>

theorem nan_width_passes_counterexample:
  "signal_decision default_config ''AAA'' NaN (Fin 100) (Some LONG) (Fin 5) =
     Inr (Some \<lparr>sig_symbol = ''AAA'', sig_side = LONG, sig_price = Fin 5, sig_adx = Fin 100\<rparr>) \<and>
   \<not> fl_ge NaN (BOLLINGER_WIDTH_MIN_PCT default_config) \<and>
   analyze_symbol nan_width_config one_down ''BBB'' = Inr (Some (rising_signal ''BBB'')) \<and>
   \<not> fl_ge (last (bollinger_width (map close rising_bars)))
          (BOLLINGER_WIDTH_MIN_PCT nan_width_config)"
proof -
  have "analyze_frame nan_width_config ''BBB'' rising_bars = Inr (Some (rising_signal ''BBB''))"
    using rising_nonempty
    by (simp add: analyze_frame_def rising_width rising_adx rising_cross rising_price
        nan_width_config_def rising_signal_def)
  then have "analyze_symbol nan_width_config one_down ''BBB'' = Inr (Some (rising_signal ''BBB''))"
    by (simp add: analyze_symbol_def one_down_fetch)
  then show ?thesis
    by (simp add: signal_decision_def default_config_def fl_ge_def nan_width_config_def)
qed

text \<open>
  C4, as the code has it. For a fetched, non-empty frame \<^verbatim>\<open>analyze_symbol\<close> returns a
  signal exactly when the latest Bollinger width is not below the width threshold, the
  latest ADX is not below the ADX threshold (so a value exactly at its threshold passes,
  and so does a NaN) and the crossover rule fired; the signal then carries the symbol,
  the crossover side, the latest close and the latest ADX. It returns no signal exactly
  when one of the three tests fails.
\<close>

theorem analyze_symbol_emits_unless_below:
  assumes "fetch_klines prov symbol = Inr df" "df \<noteq> []"
  shows "(analyze_symbol cfg prov symbol = Inr (Some sg) \<longleftrightarrow>
            \<not> fl_lt (last (bollinger_width (map close df))) (BOLLINGER_WIDTH_MIN_PCT cfg) \<and>
            \<not> fl_lt (last (adx df)) (ADX_MIN cfg) \<and>
            (\<exists>sd. triple_sma_cross df = Some sd \<and>
                  sg = \<lparr>sig_symbol = symbol, sig_side = sd,
                        sig_price = last (map close df), sig_adx = last (adx df)\<rparr>)) \<and>
         (analyze_symbol cfg prov symbol = Inr None \<longleftrightarrow>
            fl_lt (last (bollinger_width (map close df))) (BOLLINGER_WIDTH_MIN_PCT cfg) \<or>
            fl_lt (last (adx df)) (ADX_MIN cfg) \<or>
            triple_sma_cross df = None)"
proof -
  have eq: "analyze_symbol cfg prov symbol =
      signal_decision cfg symbol (last (bollinger_width (map close df))) (last (adx df))
             (triple_sma_cross df) (last (map close df))"
    using assms by (simp add: analyze_symbol_def analyze_frame_decision)
  show ?thesis
    unfolding eq signal_decision_def
    by (cases "triple_sma_cross df") auto
qed

theorem analyze_symbol_emits_unless_below_witness:
  "fetch_klines one_down ''BBB'' = Inr rising_bars \<and> rising_bars \<noteq> [] \<and>
   analyze_symbol default_config one_down ''BBB'' = Inr (Some (rising_signal ''BBB'')) \<and>
   \<not> fl_lt (last (bollinger_width (map close rising_bars))) (BOLLINGER_WIDTH_MIN_PCT default_config) \<and>
   \<not> fl_lt (last (adx rising_bars)) (ADX_MIN default_config) \<and>
   last (bollinger_width (map close rising_bars)) = BOLLINGER_WIDTH_MIN_PCT boundary_config \<and>
   last (adx rising_bars) = ADX_MIN boundary_config \<and>
   analyze_symbol boundary_config one_down ''BBB'' = Inr (Some (rising_signal ''BBB''))"
proof -
  have f: "fetch_klines one_down ''BBB'' = Inr rising_bars" by (simp add: one_down_fetch)
  from analyze_symbol_emits_unless_below [OF f rising_nonempty, of default_config "rising_signal ''BBB''"]
    one_down_signal
  have d: "\<not> fl_lt (last (bollinger_width (map close rising_bars))) (BOLLINGER_WIDTH_MIN_PCT default_config) \<and>
           \<not> fl_lt (last (adx rising_bars)) (ADX_MIN default_config)"
    by blast
  have b: "last (bollinger_width (map close rising_bars)) = BOLLINGER_WIDTH_MIN_PCT boundary_config"
          "last (adx rising_bars) = ADX_MIN boundary_config"
    by (simp_all add: rising_width rising_adx boundary_config_def)
  have sg: "rising_signal ''BBB'' = \<lparr>sig_symbol = ''BBB'', sig_side = LONG,
              sig_price = last (map close rising_bars), sig_adx = last (adx rising_bars)\<rparr>"
    by (simp add: rising_signal_def rising_price rising_adx)
  have "analyze_symbol boundary_config one_down ''BBB'' = Inr (Some (rising_signal ''BBB''))"
    using analyze_symbol_emits_unless_below [OF f rising_nonempty, of boundary_config "rising_signal ''BBB''"]
      b rising_cross sg by simp
  with f rising_nonempty one_down_signal d b show ?thesis by blast
qed

section \<open>The width filter on an undefined or zero midline\<close>















section \<open>Directional strength\<close>

lemma length_diff [simp]: "length (diff xs) = length xs"
  by (simp add: diff_def s_sub_def)

lemma length_plus_dm [simp]: "length (plus_dm df) = length df"
  by (simp add: plus_dm_def Let_def s_neg_def)

lemma length_minus_dm [simp]: "length (minus_dm df) = length df"
  by (simp add: minus_dm_def Let_def s_neg_def)

lemma length_adx_pdi [simp]: "length (adx_pdi df) = length df"
  by (simp add: adx_pdi_def s_div_def s_scale_def)

lemma length_adx_mdi [simp]: "length (adx_mdi df) = length df"
  by (simp add: adx_mdi_def s_div_def s_scale_def)

lemma length_adx_dx [simp]: "length (adx_dx df) = length df"
  by (simp add: adx_dx_def s_div_def s_scale_def s_abs_def s_sub_def s_add_def)


lemma nth_adx_mdi:
  "i < length df \<Longrightarrow>
   adx_mdi df ! i =
     fl_div (fl_mul (Fin 100) (rolling ADX_PERIOD agg_sum (minus_dm df) ! i))
            (rolling ADX_PERIOD agg_mean (true_range df) ! i)"
  by (simp add: adx_mdi_def s_div_def s_scale_def)











section \<open>One pass over the symbols\<close>

lemma scan_symbols_append_fail:
  assumes "an s = Inl e" "\<forall>t\<in>set pre. \<exists>r. an t = Inr r"
  shows "scan_symbols an (pre @ s # post) = (alerts_of an pre, Some e)"
  using assms
proof (induction pre)
  case Nil
  then show ?case by (simp add: alerts_of_def)
next
  case (Cons t pre)
  then obtain r where r: "an t = Inr r" by auto
  have ih: "scan_symbols an (pre @ s # post) = (alerts_of an pre, Some e)"
    using Cons by simp
  show ?case
    using r ih by (cases r) (simp_all add: alerts_of_def)
qed

lemma scan_symbols_all_ok:
  assumes "\<forall>t\<in>set syms. \<exists>r. an t = Inr r"
  shows "scan_symbols an syms = (alerts_of an syms, None)"
  using assms
proof (induction syms)
  case Nil
  then show ?case by (simp add: alerts_of_def)
next
  case (Cons t syms)
  then obtain r where r: "an t = Inr r" by auto
  have ih: "scan_symbols an syms = (alerts_of an syms, None)"
    using Cons by simp
  show ?case
    using r ih by (cases r) (simp_all add: alerts_of_def)
qed

text \<open>
  C1 as worded says that a failing instrument does not keep a later instrument of the
  same pass from being notified. With the provider down for AAA only, BBB on its own
  yields a signal, yet the pass over AAA and BBB sends nothing and logs one error.
\<close>

theorem failure_isolation_counterexample:
  "analyze_symbol default_config one_down ''BBB'' = Inr (Some (rising_signal ''BBB'')) \<and>
   run_cycle (analyze_symbol default_config one_down) [''AAA'', ''BBB''] =
     [LogCycleError RequestError]"
  by (simp add: one_down_signal run_cycle_def one_down_fails)

text \<open>
  C1, as the code has it. The \<^verbatim>\<open>try\<close> encloses the whole \<^verbatim>\<open>for\<close> loop: when the analysis
  of one instrument fails, the alerts of the instruments before it have been sent, the
  failure is logged, and the instruments after it are not analysed in this pass,
  whatever they would have yielded. A pass in which no analysis fails sends the alerts
  of all its instruments.
\<close>

theorem run_cycle_failure_ends_cycle:
  "(an s = Inl e \<and> (\<forall>t\<in>set pre. \<exists>r. an t = Inr r) \<longrightarrow>
      run_cycle an (pre @ s # post) = alerts_of an pre @ [LogCycleError e]) \<and>
   ((\<forall>t\<in>set syms. \<exists>r. an t = Inr r) \<longrightarrow> run_cycle an syms = alerts_of an syms)"
  using scan_symbols_append_fail [of an s e pre post] scan_symbols_all_ok [of syms an]
  by (simp add: run_cycle_def)

theorem run_cycle_failure_ends_cycle_witness:
  "analyze_symbol default_config one_down ''AAA'' = Inl RequestError \<and>
   (\<exists>r. analyze_symbol default_config one_down ''BBB'' = Inr r) \<and>
   run_cycle (analyze_symbol default_config one_down) ([''BBB''] @ ''AAA'' # [''BBB'']) =
     [Telegram (Alert (rising_signal ''BBB'')), LogAlertSent ''BBB'', LogCycleError RequestError] \<and>
   run_cycle (analyze_symbol default_config one_down) [''BBB''] =
     [Telegram (Alert (rising_signal ''BBB'')), LogAlertSent ''BBB'']"
proof -
  let ?an = "analyze_symbol default_config one_down"
  have a: "?an ''AAA'' = Inl RequestError" by (rule one_down_fails)
  have b: "\<forall>t\<in>set [''BBB'']. \<exists>r. ?an t = Inr r" by (simp add: one_down_signal)
  have al: "alerts_of ?an [''BBB''] =
              [Telegram (Alert (rising_signal ''BBB'')), LogAlertSent ''BBB'']"
    by (simp add: alerts_of_def one_down_signal rising_signal_def)
  from run_cycle_failure_ends_cycle [of ?an "''AAA''" RequestError "[''BBB'']" "[''BBB'']" "[''BBB'']"]
    a b al
  show ?thesis by simp
qed

section \<open>Cancellation\<close>

















section \<open>Module start-up\<close>

text \<open>
  C2. Run as a script, the module raises \<^verbatim>\<open>NameError\<close> for \<^verbatim>\<open>load_dotenv\<close> at line 27,
  whatever the environment variables and whatever happens afterwards: the name is
  neither imported nor a builtin. Nothing has been sent or logged by then, and neither
  the credential check nor the scan loop is reached.
\<close>

theorem module_raises_name_error:
  "run_module env ins = (Inl (NameError ''load_dotenv''), [])"
  by (simp add: run_module_def name_bound_def imported_names_def builtin_names_def)

end
